theory Spec2Isabelle
  imports Main
begin

section \<open>Data model (type.ts)\<close>

text \<open>
  The source's \<^verbatim>\<open>EnvironmentVariable = { _id, key, value }\<close>. The field \<^verbatim>\<open>_id\<close> is
  written \<open>ident\<close> and \<^verbatim>\<open>value\<close> is written \<open>val\<close>, since neither name is available
  as a record field here. All three fields are JavaScript strings.
\<close>

record EnvironmentVariable =
  ident :: string
  key :: string
  val :: string

text \<open>One element of \<^verbatim>\<open>VariablesDiff.toUpdate\<close>: \<^verbatim>\<open>{ key, oldValue, newValue }\<close>.\<close>

record VariableUpdate =
  ukey :: string
  oldValue :: string
  newValue :: string

record VariablesDiff =
  toAdd :: "EnvironmentVariable list"
  toUpdate :: "VariableUpdate list"
  toDelete :: "EnvironmentVariable list"

section \<open>The JavaScript \<^verbatim>\<open>Map\<close>\<close>

text \<open>
  A \<^verbatim>\<open>Map\<close> iterates its entries in the order in which their keys were first inserted;
  \<^verbatim>\<open>set\<close> on a key that is already present replaces the value and keeps the position.
  It is modelled as the list of its entries in iteration order.
\<close>

fun Map_set :: "('k \<times> 'v) list \<Rightarrow> 'k \<Rightarrow> 'v \<Rightarrow> ('k \<times> 'v) list" where
  "Map_set [] k v = [(k, v)]"
| "Map_set ((k', v') # m) k v =
     (if k' = k then (k, v) # m else (k', v') # Map_set m k v)"

text \<open>\<^verbatim>\<open>new Map(entries)\<close> starts from the empty map and sets each entry in turn.\<close>

definition new_Map :: "('k \<times> 'v) list \<Rightarrow> ('k \<times> 'v) list" where
  "new_Map entries = foldl (\<lambda>m (k, v). Map_set m k v) [] entries"

text \<open>\<^verbatim>\<open>get\<close> returns \<^verbatim>\<open>undefined\<close> (here \<open>None\<close>) for a key that is absent.\<close>

definition Map_get :: "('k \<times> 'v) list \<Rightarrow> 'k \<Rightarrow> 'v option" where
  "Map_get m k = map_of m k"

definition Map_has :: "('k \<times> 'v) list \<Rightarrow> 'k \<Rightarrow> bool" where
  "Map_has m k = (case map_of m k of None \<Rightarrow> False | Some v \<Rightarrow> True)"

section \<open>The diff engine (utils.ts, \<^verbatim>\<open>compareVariables\<close>)\<close>

text \<open>
  The first loop of \<^verbatim>\<open>compareVariables\<close>, over the entries of \<^verbatim>\<open>desiredMap\<close>. The two
  arrays that the source pushes to are the accumulators \<open>adds\<close> and \<open>upds\<close>. A record
  found in \<^verbatim>\<open>currentMap\<close> is an object, hence truthy, so \<^verbatim>\<open>!currentVar\<close> holds exactly when
  the key is absent.
\<close>

fun add_update_loop ::
  "(string \<times> EnvironmentVariable) list \<Rightarrow> (string \<times> EnvironmentVariable) list \<Rightarrow>
   EnvironmentVariable list \<Rightarrow> VariableUpdate list \<Rightarrow>
   EnvironmentVariable list \<times> VariableUpdate list" where
  "add_update_loop currentMap [] adds upds = (adds, upds)"
| "add_update_loop currentMap ((k, desiredVar) # rest) adds upds =
     (case Map_get currentMap k of
        None \<Rightarrow> add_update_loop currentMap rest (adds @ [desiredVar]) upds
      | Some currentVar \<Rightarrow>
          if val currentVar \<noteq> val desiredVar
          then add_update_loop currentMap rest adds
                 (upds @ [\<lparr>ukey = k, oldValue = val currentVar, newValue = val desiredVar\<rparr>])
          else add_update_loop currentMap rest adds upds)"

text \<open>The second loop, over the entries of \<^verbatim>\<open>currentMap\<close>.\<close>

fun delete_loop ::
  "(string \<times> EnvironmentVariable) list \<Rightarrow> (string \<times> EnvironmentVariable) list \<Rightarrow>
   EnvironmentVariable list \<Rightarrow> EnvironmentVariable list" where
  "delete_loop desiredMap [] dels = dels"
| "delete_loop desiredMap ((k, currentVar) # rest) dels =
     (if \<not> Map_has desiredMap k
      then delete_loop desiredMap rest (dels @ [currentVar])
      else delete_loop desiredMap rest dels)"

definition compareVariables ::
  "EnvironmentVariable list \<Rightarrow> EnvironmentVariable list \<Rightarrow> VariablesDiff" where
  "compareVariables current desired =
     (let currentMap = new_Map (map (\<lambda>v. (key v, v)) current);
          desiredMap = new_Map (map (\<lambda>v. (key v, v)) desired);
          au = add_update_loop currentMap desiredMap [] []
      in \<lparr>toAdd = fst au, toUpdate = snd au,
          toDelete = delete_loop desiredMap currentMap []\<rparr>)"

section \<open>Strings and numbers\<close>

definition newline :: char where
  "newline = CHR 0x0A"

text \<open>\<^verbatim>\<open>String(n)\<close> for a non-negative integer: its decimal digits.\<close>

definition digit_char :: "nat \<Rightarrow> char" where
  "digit_char d = ''0123456789'' ! d"

fun String_nat :: "nat \<Rightarrow> string" where
  "String_nat n =
     (if n < 10 then [digit_char n] else String_nat (n div 10) @ [digit_char (n mod 10)])"

declare String_nat.simps [simp del]

section \<open>The config parser (utils.ts, \<^verbatim>\<open>parseEnvToVariables\<close>)\<close>

text \<open>Values thrown by the source are \<^verbatim>\<open>Error\<close> objects; the model keeps their message.\<close>

datatype error = Error string

text \<open>
  The result of \<^verbatim>\<open>dotenv.parse\<close> is a plain object from names to strings. It is modelled
  as the list of its own properties in creation order; assigning to a name that exists
  replaces the value in place, which is what \<open>Map_set\<close> does.

  \<^verbatim>\<open>Object.entries\<close> enumerates the properties whose name is an array index first (a
  canonical decimal numeral below \<open>2^32 - 1\<close>), in ascending numeric order, and then the
  remaining properties in creation order.
\<close>

type_synonym js_object = "(string \<times> string) list"

definition is_digit :: "char \<Rightarrow> bool" where
  "is_digit c = (c \<in> set ''0123456789'')"

definition digit_val :: "char \<Rightarrow> nat" where
  "digit_val c = of_char c - 48"

definition nat_of_digits :: "string \<Rightarrow> nat" where
  "nat_of_digits s = foldl (\<lambda>n c. 10 * n + digit_val c) 0 s"

definition is_array_index :: "string \<Rightarrow> bool" where
  "is_array_index s =
     (case s of
        [] \<Rightarrow> False
      | c # cs \<Rightarrow>
          if list_all is_digit s
          then (if c = CHR ''0'' then cs = [] else nat_of_digits s < 4294967295)
          else False)"

definition Object_entries :: "js_object \<Rightarrow> (string \<times> string) list" where
  "Object_entries obj =
     sort_key (\<lambda>(k, v). nat_of_digits k) (filter (\<lambda>(k, v). is_array_index k) obj)
     @ filter (\<lambda>(k, v). \<not> is_array_index k) obj"

text \<open>
  The \<^verbatim>\<open>map\<close> callback of \<^verbatim>\<open>parseEnvToVariables\<close> with its counter \<^verbatim>\<open>id\<close>, which is
  read and then incremented once for each entry that passed the filter.
\<close>

fun number_entries :: "nat \<Rightarrow> (string \<times> string) list \<Rightarrow> EnvironmentVariable list" where
  "number_entries n [] = []"
| "number_entries n ((k, v) # rest) =
     \<lparr>ident = String_nat n, key = k, val = v\<rparr> # number_entries (Suc n) rest"

text \<open>
  \<^verbatim>\<open>dotenv.parse\<close> belongs to a library outside the repository, so it is a parameter of
  the model: a function from the text to the parsed object, or to the error it throws.
  The filter keeps an entry when its key is truthy, that is non-empty; the values are
  strings by the type of the parsed object, so \<^verbatim>\<open>value !== undefined\<close> holds for each.
\<close>

definition parseEnvToVariables ::
  "(string \<Rightarrow> error + js_object) \<Rightarrow> string \<Rightarrow> error + EnvironmentVariable list" where
  "parseEnvToVariables dotenv_parse envContent =
     (case dotenv_parse envContent of
        Inl e \<Rightarrow> Inl e
      | Inr parsed \<Rightarrow>
          Inr (number_entries 1 (filter (\<lambda>(k, v). k \<noteq> []) (Object_entries parsed))))"

subsection \<open>The decoder as the specification describes it\<close>

text \<open>
  Modelled from the spec: \<^verbatim>\<open>dotenv.parse\<close>, the third-party decoder that
  \<^verbatim>\<open>parseEnvToVariables\<close> calls and whose code is not part of the repository. The
  specification describes its input as \<^verbatim>\<open>KEY=VALUE\<close> lines, one assignment per line,
  with optional quoting, and with comments and blank lines ignored, decoded into an
  association in which a later assignment of a key overwrites an earlier one.
\<close>

fun split_on :: "char \<Rightarrow> string \<Rightarrow> string list" where
  "split_on c [] = [[]]"
| "split_on c (x # xs) =
     (if x = c then [] # split_on c xs
      else (case split_on c xs of [] \<Rightarrow> [[x]] | l # ls \<Rightarrow> (x # l) # ls))"

definition is_space :: "char \<Rightarrow> bool" where
  "is_space c = (c \<in> set [CHR '' '', CHR 0x09, CHR 0x0D])"

definition trim :: "string \<Rightarrow> string" where
  "trim s = rev (dropWhile is_space (rev (dropWhile is_space s)))"

definition unquote :: "string \<Rightarrow> string" where
  "unquote s =
     (case s of
        [] \<Rightarrow> []
      | q # r \<Rightarrow>
          if q \<in> set [CHR 0x27, CHR 0x22, CHR 0x60]
          then (case rev r of [] \<Rightarrow> s | q' # m \<Rightarrow> if q' = q then rev m else s)
          else s)"

definition decode_line :: "string \<Rightarrow> (string \<times> string) option" where
  "decode_line line =
     (let t = trim line in
      case t of
        [] \<Rightarrow> None
      | c # cs \<Rightarrow>
          if c = CHR ''#'' then None
          else if CHR ''='' \<in> set t
          then Some (trim (takeWhile (\<lambda>x. x \<noteq> CHR ''='') t),
                     unquote (trim (tl (dropWhile (\<lambda>x. x \<noteq> CHR ''='') t))))
          else None)"

definition dotenv_parse_spec :: "string \<Rightarrow> error + js_object" where
  "dotenv_parse_spec src =
     Inr (foldl (\<lambda>obj line. case decode_line line of
                               None \<Rightarrow> obj
                             | Some (k, v) \<Rightarrow> Map_set obj k v)
            [] (split_on newline src))"

section \<open>Effects: the trace of a run\<close>

text \<open>
  The asynchronous functions of the source call collaborators, write to the console
  and may throw. A run is modelled by the list of the events it causes, in order, together
  with its outcome: \<open>Inl e\<close> when the promise is rejected with \<open>e\<close>, \<open>Inr x\<close> when it
  is fulfilled with \<open>x\<close>.
\<close>

text \<open>The three GraphQL operations of zeabur.ts with the variables passed to each.\<close>

datatype gql_request =
    GetServiceVariables string string
  | UpdateVariables string string "(string \<times> string) list"
  | RestartService string string

text \<open>
  What the GraphQL client hands back: for the variables query the list under
  \<^verbatim>\<open>data.service.variables\<close>, of which the source keeps \<^verbatim>\<open>_id\<close>, \<^verbatim>\<open>key\<close> and \<^verbatim>\<open>value\<close>;
  for a mutation an opaque result.
\<close>

datatype gql_data = Service_variables "EnvironmentVariable list" | Result string

record NotificationPayload =
  title :: string
  body :: string
  summary :: string
  added :: nat
  updated :: nat
  deleted :: nat
  total :: nat
  timestamp :: string
  success :: bool
  error_message :: "string option"

text \<open>
  The events of a trace. A \<open>Call\<close> event marks the entry into the function of that name,
  with its argument; \<open>Client_request\<close> is a \<^verbatim>\<open>client.request\<close> of the GraphQL client,
  \<open>Provider_send i\<close> the call of \<^verbatim>\<open>send\<close> on the provider at index \<open>i\<close>, \<open>Fetch\<close> a
  \<^verbatim>\<open>fetch\<close> with its address and the fields of its JSON body, and the last two are the
  lines written with \<^verbatim>\<open>console.log\<close> and \<^verbatim>\<open>console.error\<close>.
\<close>

datatype event =
    Call_getZeaburVariables
  | Call_getVaultHubVault
  | Call_updateZeaburVariables "EnvironmentVariable list"
  | Call_restartZeaburService
  | Call_sendNotification NotificationPayload
  | Client_request gql_request
  | Provider_send nat NotificationPayload
  | Fetch string "(string \<times> string) list"
  | Console_log string
  | Console_error string error

type_synonym 'a io = "event list \<times> (error + 'a)"

definition resolve :: "'a \<Rightarrow> 'a io" where
  "resolve x = ([], Inr x)"

definition reject :: "error \<Rightarrow> 'a io" where
  "reject e = ([], Inl e)"

definition emit :: "event \<Rightarrow> unit io" where
  "emit ev = ([ev], Inr ())"

text \<open>\<^verbatim>\<open>await m\<close> followed by the rest of the function body: a rejection of \<open>m\<close> ends it.\<close>

definition await :: "'a io \<Rightarrow> ('a \<Rightarrow> 'b io) \<Rightarrow> 'b io" where
  "await m f =
     (case m of
        (t, Inl e) \<Rightarrow> (t, Inl e)
      | (t, Inr x) \<Rightarrow> (case f x of (t', r) \<Rightarrow> (t @ t', r)))"

text \<open>\<^verbatim>\<open>try { m } catch (error) { h error }\<close>.\<close>

definition try_catch :: "'a io \<Rightarrow> (error \<Rightarrow> 'a io) \<Rightarrow> 'a io" where
  "try_catch m h =
     (case m of
        (t, Inl e) \<Rightarrow> (case h e of (t', r) \<Rightarrow> (t @ t', r))
      | (t, Inr x) \<Rightarrow> (t, Inr x))"

text \<open>
  The environment of a run: the process environment \<^verbatim>\<open>Bun.env\<close>, the answers of the
  GraphQL endpoint, the outcome of \<^verbatim>\<open>getVaultHubVault\<close> (vault-hub.ts is not among the
  sources, so the whole call is a parameter), the \<^verbatim>\<open>dotenv.parse\<close> in use, and the
  answers of \<^verbatim>\<open>fetch\<close>.
\<close>

record Vault =
  vault_value :: string

record http_response =
  ok :: bool
  status :: nat
  json :: "error + string"

record world =
  Bun_env :: "string \<Rightarrow> string option"
  client_request :: "gql_request \<Rightarrow> error + gql_data"
  vault_hub :: "error + Vault"
  dotenv_parse :: "string \<Rightarrow> error + js_object"
  fetch :: "string \<Rightarrow> (string \<times> string) list \<Rightarrow> error + http_response"

section \<open>The platform client (zeabur.ts)\<close>

record ZeaburConfig =
  apiKey :: string
  serviceId :: string
  envId :: string

definition missing_variables :: error where
  "missing_variables =
     Error ''Missing required environment variables: ZEABUR_API_KEY, ZEABUR_SERVICE_ID, ZEABUR_ENV_ID''"

text \<open>
  \<^verbatim>\<open>createZeaburClient\<close>. An environment variable is falsy when it is unset or the empty
  string.
\<close>

definition createZeaburClient :: "(string \<Rightarrow> string option) \<Rightarrow> error + ZeaburConfig" where
  "createZeaburClient env =
     (case env ''ZEABUR_API_KEY'' of
        None \<Rightarrow> Inl missing_variables
      | Some k \<Rightarrow>
     (case env ''ZEABUR_SERVICE_ID'' of
        None \<Rightarrow> Inl missing_variables
      | Some s \<Rightarrow>
     (case env ''ZEABUR_ENV_ID'' of
        None \<Rightarrow> Inl missing_variables
      | Some e \<Rightarrow>
          if k = [] \<or> s = [] \<or> e = [] then Inl missing_variables
          else Inr \<lparr>apiKey = k, serviceId = s, envId = e\<rparr>)))"

definition request :: "world \<Rightarrow> gql_request \<Rightarrow> gql_data io" where
  "request w r = ([Client_request r], client_request w r)"

text \<open>
  \<^verbatim>\<open>getZeaburVariables\<close>. A response without \<^verbatim>\<open>service.variables\<close> makes the property
  access throw a \<^verbatim>\<open>TypeError\<close>.
\<close>

definition getZeaburVariables :: "world \<Rightarrow> EnvironmentVariable list io" where
  "getZeaburVariables w =
     await (emit Call_getZeaburVariables) (\<lambda>u.
     await ([], createZeaburClient (Bun_env w)) (\<lambda>cfg.
     await (request w (GetServiceVariables (serviceId cfg) (envId cfg))) (\<lambda>data.
     case data of
       Service_variables vs \<Rightarrow>
         resolve (map (\<lambda>variable. \<lparr>ident = ident variable, key = key variable,
                                     val = val variable\<rparr>) vs)
     | Result x \<Rightarrow> reject (Error ''TypeError''))))"

text \<open>\<^verbatim>\<open>updateZeaburVariables\<close>: the mutation carries a \<^verbatim>\<open>Map\<close> from each key to its value.\<close>

definition updateZeaburVariables :: "world \<Rightarrow> EnvironmentVariable list \<Rightarrow> gql_data io" where
  "updateZeaburVariables w variables =
     await (emit (Call_updateZeaburVariables variables)) (\<lambda>u.
     await ([], createZeaburClient (Bun_env w)) (\<lambda>cfg.
     let data = new_Map (map (\<lambda>variable. (key variable, val variable)) variables) in
     await (request w (UpdateVariables (serviceId cfg) (envId cfg) data)) (\<lambda>result.
     resolve result)))"

definition restartZeaburService :: "world \<Rightarrow> gql_data io" where
  "restartZeaburService w =
     await (emit Call_restartZeaburService) (\<lambda>u.
     await ([], createZeaburClient (Bun_env w)) (\<lambda>cfg.
     await (request w (RestartService (serviceId cfg) (envId cfg))) (\<lambda>data.
     resolve data)))"

definition getVaultHubVault :: "world \<Rightarrow> Vault io" where
  "getVaultHubVault w = ([Call_getVaultHubVault], vault_hub w)"

section \<open>The sync orchestrator (index.ts)\<close>

text \<open>
  The lines that \<^verbatim>\<open>runSync\<close> prints for a diff. The pictographs that open the three section
  headers in the source are outside ASCII and are left out of the modelled text.
\<close>

definition report :: "VariablesDiff \<Rightarrow> string list" where
  "report d =
     [''=== Variables Comparison ==='' @ [newline]]
     @ [''Variables to ADD ('' @ String_nat (length (toAdd d)) @ ''):'']
     @ (if length (toAdd d) > 0
        then map (\<lambda>v. ''  + '' @ key v @ '': '' @ val v) (toAdd d)
        else [''  (none)''])
     @ [[]]
     @ [''Variables to UPDATE ('' @ String_nat (length (toUpdate d)) @ ''):'']
     @ (if length (toUpdate d) > 0
        then concat (map (\<lambda>v. [''  ~ '' @ ukey v @ '':'',
                                 ''    - Old: '' @ oldValue v,
                                 ''    + New: '' @ newValue v]) (toUpdate d))
        else [''  (none)''])
     @ [[]]
     @ [''Variables to DELETE ('' @ String_nat (length (toDelete d)) @ ''):'']
     @ (if length (toDelete d) > 0
        then map (\<lambda>v. ''  - '' @ key v @ '': '' @ val v) (toDelete d)
        else [''  (none)''])
     @ [newline # ''=== Summary ==='']
     @ [''Total changes needed: ''
        @ String_nat (length (toAdd d) + length (toUpdate d) + length (toDelete d))]"

definition console_log_all :: "string list \<Rightarrow> unit io" where
  "console_log_all ls = (map Console_log ls, Inr ())"

record sync_result =
  diff :: VariablesDiff
  updateResult :: gql_data
  restartResult :: gql_data

text \<open>\<^verbatim>\<open>runSync\<close>; the value \<^verbatim>\<open>undefined\<close> of the early return is \<open>None\<close>.\<close>

definition runSync :: "world \<Rightarrow> sync_result option io" where
  "runSync w =
     await (getZeaburVariables w) (\<lambda>existingVariables.
     await (getVaultHubVault w) (\<lambda>vaultVariables.
     await ([], parseEnvToVariables (dotenv_parse w) (vault_value vaultVariables))
       (\<lambda>parsedVaultVariables.
     let d = compareVariables existingVariables parsedVaultVariables in
     await (console_log_all (report d)) (\<lambda>u.
     if length (toAdd d) + length (toUpdate d) + length (toDelete d) = 0
     then await (emit (Console_log ''No changes needed'')) (\<lambda>u. resolve None)
     else
       await (updateZeaburVariables w parsedVaultVariables) (\<lambda>updateRes.
       await (restartZeaburService w) (\<lambda>restartRes.
       resolve (Some \<lparr>diff = d, updateResult = updateRes, restartResult = restartRes\<rparr>)))))))"

text \<open>
  \<^verbatim>\<open>runSyncWithErrorHandling\<close>; \<open>now\<close> is the reading of the clock,
  \<^verbatim>\<open>new Date().toISOString()\<close>.
\<close>

definition runSyncWithErrorHandling :: "world \<Rightarrow> string \<Rightarrow> unit io" where
  "runSyncWithErrorHandling w now =
     await (emit (Console_log (newline # ''['' @ now @ ''] Starting sync...''))) (\<lambda>u.
     try_catch
       (await (runSync w) (\<lambda>r.
        emit (Console_log (''['' @ now @ ''] Sync completed successfully''))))
       (\<lambda>err. emit (Console_error (''['' @ now @ ''] Sync failed:'') err)))"

text \<open>The calls of the apply, restart and notification operations that a trace holds.\<close>

fun apply_calls :: "event list \<Rightarrow> EnvironmentVariable list list" where
  "apply_calls [] = []"
| "apply_calls (Call_updateZeaburVariables vs # t) = vs # apply_calls t"
| "apply_calls (ev # t) = apply_calls t"

fun restart_calls :: "event list \<Rightarrow> nat" where
  "restart_calls [] = 0"
| "restart_calls (Call_restartZeaburService # t) = Suc (restart_calls t)"
| "restart_calls (ev # t) = restart_calls t"

fun notification_calls :: "event list \<Rightarrow> NotificationPayload list" where
  "notification_calls [] = []"
| "notification_calls (Call_sendNotification p # t) = p # notification_calls t"
| "notification_calls (Provider_send i p # t) = p # notification_calls t"
| "notification_calls (ev # t) = notification_calls t"

section \<open>The notifier (notifier/bark.ts, notifier/index.ts)\<close>

record BarkConfig =
  bark_key :: string
  serverUrl :: string
  sound :: "string option"
  group :: "string option"

definition getBarkConfig :: "(string \<Rightarrow> string option) \<Rightarrow> BarkConfig option" where
  "getBarkConfig env =
     (case env ''BARK_KEY'' of
        None \<Rightarrow> None
      | Some k \<Rightarrow>
          if k = [] then None
          else Some \<lparr>bark_key = k,
                     serverUrl = (case env ''BARK_SERVER_URL'' of
                                    None \<Rightarrow> ''https://api.day.app''
                                  | Some u \<Rightarrow> if u = [] then ''https://api.day.app'' else u),
                     sound = env ''BARK_SOUND'',
                     group = env ''BARK_GROUP''\<rparr>)"

text \<open>The constructor of \<^verbatim>\<open>BarkNotifier\<close>, which throws when there is no configuration.\<close>

definition BarkNotifier_new :: "(string \<Rightarrow> string option) \<Rightarrow> error + BarkConfig" where
  "BarkNotifier_new env =
     (case getBarkConfig env of
        None \<Rightarrow> Inl (Error ''Bark configuration not found: BARK_KEY is required'')
      | Some config \<Rightarrow> Inr config)"

text \<open>An optional field of the request body, added when the configured value is truthy.\<close>

definition optional_field :: "string \<Rightarrow> string option \<Rightarrow> (string \<times> string) list" where
  "optional_field name v =
     (case v of None \<Rightarrow> [] | Some x \<Rightarrow> if x = [] then [] else [(name, x)])"

text \<open>
  \<^verbatim>\<open>BarkNotifier.send\<close>: an asynchronous method, so whatever it throws rejects the promise
  it returns.
\<close>

definition BarkNotifier_send ::
  "(string \<Rightarrow> (string \<times> string) list \<Rightarrow> error + http_response) \<Rightarrow> BarkConfig \<Rightarrow>
   NotificationPayload \<Rightarrow> unit io" where
  "BarkNotifier_send fetch_fn config payload =
     (let server = rev (dropWhile (\<lambda>c. c = CHR ''/'') (rev (serverUrl config)));
          endpoint = server @ ''/push'';
          request_body = [(''device_key'', bark_key config), (''title'', title payload),
                          (''body'', body payload)]
                         @ optional_field ''sound'' (sound config)
                         @ optional_field ''group'' (group config)
      in try_catch
           (await ([Fetch endpoint request_body], fetch_fn endpoint request_body) (\<lambda>response.
            if \<not> ok response
            then reject (Error (''Bark notification failed with status ''
                                @ String_nat (status response)))
            else await ([], json response) (\<lambda>result.
                 emit (Console_log (''Bark notification sent successfully: '' @ result)))))
           (\<lambda>err. await (emit (Console_error ''Failed to send Bark notification:'' err))
                     (\<lambda>u. reject err)))"

text \<open>
  A provider is its \<^verbatim>\<open>send\<close> method: from the payload to the events of the attempt and
  the way the returned promise settles.
\<close>

type_synonym provider = "NotificationPayload \<Rightarrow> unit io"

text \<open>
  \<^verbatim>\<open>Promise.allSettled(providers.map((provider) => provider.send(payload)))\<close>: every
  provider's \<^verbatim>\<open>send\<close> is called, in the order of the array, and every outcome is kept.
  The attempts run concurrently in the source; the trace lists the events of each attempt
  together, after the event that marks its call.
\<close>

fun allSettled_send ::
  "nat \<Rightarrow> provider list \<Rightarrow> NotificationPayload \<Rightarrow> event list \<times> (error + unit) list" where
  "allSettled_send i [] payload = ([], [])"
| "allSettled_send i (p # ps) payload =
     (case p payload of (t, r) \<Rightarrow>
      case allSettled_send (Suc i) ps payload of (ts, rs) \<Rightarrow>
        (Provider_send i payload # t @ ts, r # rs))"

text \<open>The \<^verbatim>\<open>forEach\<close> over the settled results.\<close>

fun log_failures :: "nat \<Rightarrow> (error + unit) list \<Rightarrow> event list" where
  "log_failures i [] = []"
| "log_failures i (Inl reason # rs) =
     Console_error (''Notification provider '' @ String_nat i @ '' failed:'') reason
     # log_failures (Suc i) rs"
| "log_failures i (Inr u # rs) = log_failures (Suc i) rs"

text \<open>The first part of \<^verbatim>\<open>sendNotification\<close>: the providers enabled by the environment.\<close>

definition configured_providers :: "world \<Rightarrow> event list \<times> provider list" where
  "configured_providers w =
     (case Bun_env w ''BARK_KEY'' of
        None \<Rightarrow> ([], [])
      | Some k \<Rightarrow>
          if k = [] then ([], [])
          else (case BarkNotifier_new (Bun_env w) of
                  Inl err \<Rightarrow> ([Console_error ''Failed to initialize Bark notifier:'' err], [])
                | Inr config \<Rightarrow> ([], [BarkNotifier_send (fetch w) config])))"

text \<open>The second part of \<^verbatim>\<open>sendNotification\<close>, from the test for an empty provider list on.\<close>

definition dispatch :: "provider list \<Rightarrow> NotificationPayload \<Rightarrow> unit io" where
  "dispatch providers payload =
     (if length providers = 0
      then emit (Console_log ''No notification providers configured, skipping notifications'')
      else (case allSettled_send 0 providers payload of
              (t, results) \<Rightarrow> (t @ log_failures 0 results, Inr ())))"

definition sendNotification :: "world \<Rightarrow> NotificationPayload \<Rightarrow> unit io" where
  "sendNotification w payload =
     (case configured_providers w of
        (t, providers) \<Rightarrow>
          (case dispatch providers payload of
             (t', r) \<Rightarrow> (Call_sendNotification payload # t @ t', r)))"

text \<open>The callback that \<^verbatim>\<open>startScheduler\<close> registers for every tick of the schedule.\<close>

definition scheduler_callback :: "world \<Rightarrow> string \<Rightarrow> unit io" where
  "scheduler_callback w now = await (runSyncWithErrorHandling w now) (\<lambda>u. resolve ())"

text \<open>The mutations that a trace sends to the GraphQL endpoint.\<close>

fun mutations :: "event list \<Rightarrow> gql_request list" where
  "mutations [] = []"
| "mutations (Client_request (UpdateVariables s e d) # t) = UpdateVariables s e d # mutations t"
| "mutations (Client_request (RestartService s e) # t) = RestartService s e # mutations t"
| "mutations (ev # t) = mutations t"

text \<open>
  The events of \<^verbatim>\<open>runSync\<close> up to the end of the report, when both fetches and the parse
  succeed and the diff is \<open>d\<close>.
\<close>

definition sync_prefix :: "world \<Rightarrow> VariablesDiff \<Rightarrow> event list" where
  "sync_prefix w d =
     fst (getZeaburVariables w) @ [Call_getVaultHubVault] @ map Console_log (report d)"

section \<open>Example runs\<close>

text \<open>
  Concrete environments on which the theorems below are instantiated: a configured
  service whose vault holds \<^verbatim>\<open>B=3\<close> and \<^verbatim>\<open>C=4\<close>, with a platform that holds \<^verbatim>\<open>A=1\<close> and
  \<^verbatim>\<open>B=2\<close> (changes are needed), or already \<^verbatim>\<open>B=3\<close> and \<^verbatim>\<open>C=4\<close> (nothing to do), with an
  endpoint that refuses the update, and with a vault that cannot be reached.
\<close>

definition example_env :: "string \<Rightarrow> string option" where
  "example_env name =
     (if name = ''ZEABUR_API_KEY'' then Some ''secret''
      else if name = ''ZEABUR_SERVICE_ID'' then Some ''svc''
      else if name = ''ZEABUR_ENV_ID'' then Some ''env''
      else None)"

definition example_vault :: Vault where
  "example_vault = \<lparr>vault_value = ''B=3'' @ [newline] @ ''C=4''\<rparr>"

definition example_parse :: "string \<Rightarrow> error + js_object" where
  "example_parse src =
     (if src = ''B=3'' @ [newline] @ ''C=4'' then Inr [(''B'', ''3''), (''C'', ''4'')] else Inr [])"

definition example_parsed :: "EnvironmentVariable list" where
  "example_parsed = [\<lparr>ident = ''1'', key = ''B'', val = ''3''\<rparr>,
                     \<lparr>ident = ''2'', key = ''C'', val = ''4''\<rparr>]"

definition example_current :: "EnvironmentVariable list" where
  "example_current = [\<lparr>ident = ''x1'', key = ''A'', val = ''1''\<rparr>,
                      \<lparr>ident = ''x2'', key = ''B'', val = ''2''\<rparr>]"

definition synced_current :: "EnvironmentVariable list" where
  "synced_current = [\<lparr>ident = ''x2'', key = ''B'', val = ''3''\<rparr>,
                     \<lparr>ident = ''x3'', key = ''C'', val = ''4''\<rparr>]"

fun endpoint_ok :: "EnvironmentVariable list \<Rightarrow> gql_request \<Rightarrow> error + gql_data" where
  "endpoint_ok current (GetServiceVariables s e) = Inr (Service_variables current)"
| "endpoint_ok current (UpdateVariables s e d) = Inr (Result ''true'')"
| "endpoint_ok current (RestartService s e) = Inr (Result ''true'')"

fun endpoint_update_fails :: "EnvironmentVariable list \<Rightarrow> gql_request \<Rightarrow> error + gql_data" where
  "endpoint_update_fails current (GetServiceVariables s e) = Inr (Service_variables current)"
| "endpoint_update_fails current (UpdateVariables s e d) = Inl (Error ''update refused'')"
| "endpoint_update_fails current (RestartService s e) = Inr (Result ''true'')"

fun fetch_unused :: "string \<Rightarrow> (string \<times> string) list \<Rightarrow> error + http_response" where
  "fetch_unused url b = Inl (Error ''unreachable'')"

fun fetch_ok :: "string \<Rightarrow> (string \<times> string) list \<Rightarrow> error + http_response" where
  "fetch_ok url b = Inr \<lparr>ok = True, status = 200, json = Inr ''{}''\<rparr>"

definition example_world :: world where
  "example_world = \<lparr>Bun_env = example_env, client_request = endpoint_ok example_current,
                     vault_hub = Inr example_vault, dotenv_parse = example_parse,
                     fetch = fetch_unused\<rparr>"

definition unchanged_world :: world where
  "unchanged_world = \<lparr>Bun_env = example_env, client_request = endpoint_ok synced_current,
                       vault_hub = Inr example_vault, dotenv_parse = example_parse,
                       fetch = fetch_unused\<rparr>"

definition apply_fails_world :: world where
  "apply_fails_world = \<lparr>Bun_env = example_env,
                         client_request = endpoint_update_fails example_current,
                         vault_hub = Inr example_vault, dotenv_parse = example_parse,
                         fetch = fetch_unused\<rparr>"

definition vault_down_world :: world where
  "vault_down_world = \<lparr>Bun_env = example_env, client_request = endpoint_ok example_current,
                        vault_hub = Inl (Error ''vault unreachable''),
                        dotenv_parse = example_parse, fetch = fetch_unused\<rparr>"

definition example_payload :: NotificationPayload where
  "example_payload = \<lparr>title = ''Zeabur Env Sync Success'', body = ''Total: 3 changes applied'',
     summary = ''3 changes applied'', added = 1, updated = 1, deleted = 1, total = 3,
     timestamp = ''2026-01-01T00:00:00.000Z'', success = True, error_message = None\<rparr>"

definition example_bark :: BarkConfig where
  "example_bark = \<lparr>bark_key = ''device'', serverUrl = ''https://api.day.app/'',
                    sound = None, group = Some ''sync''\<rparr>"

text \<open>Two providers: the first cannot reach its server, the second can.\<close>

definition example_providers :: "provider list" where
  "example_providers = [BarkNotifier_send fetch_unused example_bark,
                        BarkNotifier_send fetch_ok example_bark]"

section \<open>Facts about the \<^verbatim>\<open>Map\<close> model\<close>

lemma Map_set_keys:
  "map fst (Map_set m k v) = (if k \<in> fst ` set m then map fst m else map fst m @ [k])"
  by (induction m k v rule: Map_set.induct) auto

lemma Map_set_lookup: "map_of (Map_set m k v) = (map_of m)(k \<mapsto> v)"
  by (induction m k v rule: Map_set.induct) (auto simp: fun_eq_iff)

lemma Map_set_distinct: "distinct (map fst m) \<Longrightarrow> distinct (map fst (Map_set m k v))"
  by (simp add: Map_set_keys)

lemma Map_set_entry_inv:
  "\<forall>(a, b) \<in> set m. P a b \<Longrightarrow> P k v \<Longrightarrow> \<forall>(a, b) \<in> set (Map_set m k v). P a b"
  by (induction m k v rule: Map_set.induct) auto

lemma foldl_Map_set_distinct:
  "distinct (map fst m) \<Longrightarrow>
   distinct (map fst (foldl (\<lambda>m (k, v). Map_set m k v) m es))"
  by (induction es arbitrary: m) (auto simp: Map_set_distinct)

lemma foldl_Map_set_keys:
  "fst ` set (foldl (\<lambda>m (k, v). Map_set m k v) m es) = fst ` set m \<union> fst ` set es"
proof (induction es arbitrary: m)
  case Nil
  then show ?case by simp
next
  case (Cons e es)
  obtain k v where e: "e = (k, v)" by (cases e)
  have "fst ` set (Map_set m k v) = insert k (fst ` set m)"
    using Map_set_keys [of m k v] by (metis (no_types) Map_set_lookup dom_fun_upd dom_map_of_conv_image_fst option.distinct(1))
  with Cons e show ?case by auto
qed

section \<open>Facts about the diff engine\<close>

lemma new_Map_distinct: "distinct (map fst (new_Map es))"
  unfolding new_Map_def by (rule foldl_Map_set_distinct) simp

lemma new_Map_keys: "fst ` set (new_Map es) = fst ` set es"
  unfolding new_Map_def by (simp add: foldl_Map_set_keys)

lemma foldl_Map_set_lookup:
  "map_of (foldl (\<lambda>m (k, v). Map_set m k v) m es) = map_of m ++ map_of (rev es)"
  by (induction es arbitrary: m) (auto simp: Map_set_lookup fun_eq_iff map_add_def split: option.splits)

lemma new_Map_lookup: "map_of (new_Map es) = map_of (rev es)"
  unfolding new_Map_def by (simp add: foldl_Map_set_lookup)

lemma foldl_Map_set_entry_inv:
  "\<forall>(a, b) \<in> set m. P a b \<Longrightarrow> \<forall>(a, b) \<in> set es. P a b \<Longrightarrow>
   \<forall>(a, b) \<in> set (foldl (\<lambda>m (k, v). Map_set m k v) m es). P a b"
proof (induction es arbitrary: m)
  case Nil
  then show ?case by simp
next
  case (Cons e es)
  obtain k v where e: "e = (k, v)" by (cases e)
  from Cons.prems e have "\<forall>(a, b) \<in> set (Map_set m k v). P a b"
    by (intro Map_set_entry_inv) auto
  with Cons e show ?case by simp
qed

lemma new_Map_entry_key:
  "(k, v) \<in> set (new_Map (map (\<lambda>v. (key v, v)) s)) \<Longrightarrow> key v = k \<and> v \<in> set s"
  using foldl_Map_set_entry_inv [of "[]" "\<lambda>a b. key b = a \<and> b \<in> set s" "map (\<lambda>v. (key v, v)) s"]
  unfolding new_Map_def by auto

lemma new_Map_entry_get:
  "(k, v) \<in> set (new_Map es) \<Longrightarrow> Map_get (new_Map es) k = Some v"
  unfolding Map_get_def by (simp add: new_Map_distinct)

lemma Map_set_fresh: "k \<notin> fst ` set m \<Longrightarrow> Map_set m k v = m @ [(k, v)]"
  by (induction m k v rule: Map_set.induct) auto

lemma foldl_Map_set_fresh:
  "distinct (map fst (m @ es)) \<Longrightarrow> foldl (\<lambda>m (k, v). Map_set m k v) m es = m @ es"
proof (induction es arbitrary: m)
  case Nil
  then show ?case by simp
next
  case (Cons e es)
  obtain k v where e: "e = (k, v)" by (cases e)
  from Cons.prems e have "Map_set m k v = m @ [(k, v)]"
    by (intro Map_set_fresh) auto
  with Cons e show ?case by simp
qed

lemma new_Map_unique: "distinct (map fst es) \<Longrightarrow> new_Map es = es"
  unfolding new_Map_def using foldl_Map_set_fresh [of "[]" es] by simp

lemma add_update_loop_fst:
  "fst (add_update_loop cm es adds upds) =
     adds @ map snd (filter (\<lambda>(k, d). Map_get cm k = None) es)"
  by (induction cm es adds upds rule: add_update_loop.induct) (auto split: option.splits)

lemma add_update_loop_snd:
  "snd (add_update_loop cm es adds upds) =
     upds @ concat (map (\<lambda>(k, d). case Map_get cm k of None \<Rightarrow> []
        | Some c \<Rightarrow> if val c \<noteq> val d then [\<lparr>ukey = k, oldValue = val c, newValue = val d\<rparr>] else []) es)"
  by (induction cm es adds upds rule: add_update_loop.induct) (auto split: option.splits)

lemma delete_loop_filter:
  "delete_loop dm es dels = dels @ map snd (filter (\<lambda>(k, c). \<not> Map_has dm k) es)"
  by (induction dm es dels rule: delete_loop.induct) auto

lemma Map_has_iff: "Map_has m k \<longleftrightarrow> k \<in> fst ` set m"
  unfolding Map_has_def by (auto split: option.splits simp: map_of_eq_None_iff dest: map_of_SomeD intro: rev_image_eqI)

text \<open>
  Claim C10. Comparing any snapshot with itself, be it empty or with repeated keys,
  gives a diff whose three lists are empty.
\<close>

theorem compareVariables_self: "compareVariables s s = \<lparr>toAdd = [], toUpdate = [], toDelete = []\<rparr>"
proof -
  define m where "m = new_Map (map (\<lambda>v. (key v, v)) s)"
  have get: "Map_get m k = Some v" if "(k, v) \<in> set m" for k v
    using that unfolding m_def by (rule new_Map_entry_get)
  have a: "filter (\<lambda>(k, d). Map_get m k = None) m = []"
    by (auto simp: filter_empty_conv dest: get)
  have u: "concat (map (\<lambda>(k, d). case Map_get m k of None \<Rightarrow> []
        | Some c \<Rightarrow> if val c \<noteq> val d then [\<lparr>ukey = k, oldValue = val c, newValue = val d\<rparr>] else []) m) = []"
    by (auto dest: get)
  have d: "filter (\<lambda>(k, c). \<not> Map_has m k) m = []"
    by (auto simp: filter_empty_conv Map_has_iff intro: rev_image_eqI)
  show ?thesis
    unfolding compareVariables_def Let_def m_def [symmetric]
    by (simp add: add_update_loop_fst add_update_loop_snd delete_loop_filter a u d)
qed

text \<open>
  Claim C8. With current \<^verbatim>\<open>A=1, B=2\<close> and desired \<^verbatim>\<open>B=3, C=4\<close>, whatever the identifiers
  of the four records, \<^verbatim>\<open>compareVariables\<close> returns the desired record \<^verbatim>\<open>C=4\<close> as the only
  addition, \<^verbatim>\<open>B\<close> from \<^verbatim>\<open>2\<close> to \<^verbatim>\<open>3\<close> as the only update and the current record \<^verbatim>\<open>A=1\<close> as
  the only deletion.
\<close>

theorem compareVariables_example: "compareVariables
     [\<lparr>ident = a, key = ''A'', val = ''1''\<rparr>, \<lparr>ident = b, key = ''B'', val = ''2''\<rparr>]
     [\<lparr>ident = c, key = ''B'', val = ''3''\<rparr>, \<lparr>ident = d, key = ''C'', val = ''4''\<rparr>]
   = \<lparr>toAdd = [\<lparr>ident = d, key = ''C'', val = ''4''\<rparr>],
      toUpdate = [\<lparr>ukey = ''B'', oldValue = ''2'', newValue = ''3''\<rparr>],
      toDelete = [\<lparr>ident = a, key = ''A'', val = ''1''\<rparr>]\<rparr>"
  by (simp add: compareVariables_def new_Map_def Map_get_def Map_has_def)

lemma entries_unique:
  "distinct (map key s) \<Longrightarrow> new_Map (map (\<lambda>v. (key v, v)) s) = map (\<lambda>v. (key v, v)) s"
  by (rule new_Map_unique) (simp add: comp_def)

lemma get_entries_None:
  "Map_get (map (\<lambda>v. (key v, v)) s) k = None \<longleftrightarrow> k \<notin> key ` set s"
  unfolding Map_get_def by (simp add: map_of_eq_None_iff image_comp comp_def)

lemma get_entries_Some:
  "distinct (map key s) \<Longrightarrow>
   Map_get (map (\<lambda>v. (key v, v)) s) k = Some c \<longleftrightarrow> c \<in> set s \<and> key c = k"
  unfolding Map_get_def
  by (auto simp: comp_def dest!: map_of_SomeD intro!: map_of_is_SomeI)

lemma get_entries_Some_sym:
  "distinct (map key s) \<Longrightarrow>
   Some c = Map_get (map (\<lambda>v. (key v, v)) s) k \<longleftrightarrow> c \<in> set s \<and> key c = k"
  using get_entries_Some [of s k c] by auto

lemma has_entries: "Map_has (map (\<lambda>v. (key v, v)) s) k \<longleftrightarrow> k \<in> key ` set s"
  by (simp add: Map_has_iff image_comp comp_def)

lemma toAdd_unique:
  assumes "distinct (map key current)" "distinct (map key desired)"
  shows "toAdd (compareVariables current desired) =
           filter (\<lambda>e. key e \<notin> key ` set current) desired"
  using assms
  by (simp add: compareVariables_def Let_def entries_unique add_update_loop_fst filter_map comp_def
        get_entries_None)

lemma toDelete_unique:
  assumes "distinct (map key current)" "distinct (map key desired)"
  shows "toDelete (compareVariables current desired) =
           filter (\<lambda>c. key c \<notin> key ` set desired) current"
  using assms
  by (simp add: compareVariables_def Let_def entries_unique delete_loop_filter filter_map comp_def
        has_entries)

lemma toUpdate_unique_set:
  assumes "distinct (map key current)" "distinct (map key desired)"
  shows "set (toUpdate (compareVariables current desired)) =
           {\<lparr>ukey = key e, oldValue = val c, newValue = val e\<rparr> | c e.
              c \<in> set current \<and> e \<in> set desired \<and> key c = key e \<and> val c \<noteq> val e}"
  using assms
  apply (simp add: compareVariables_def Let_def entries_unique add_update_loop_snd)
  apply (auto split: option.splits if_splits simp: get_entries_Some get_entries_Some_sym get_entries_None)
  done

lemma toUpdate_keys:
  "map ukey (toUpdate (compareVariables current desired)) =
     map fst (filter (\<lambda>(k, d). case Map_get (new_Map (map (\<lambda>v. (key v, v)) current)) k of
                        None \<Rightarrow> False | Some c \<Rightarrow> val c \<noteq> val d)
       (new_Map (map (\<lambda>v. (key v, v)) desired)))"
proof -
  have "map ukey (concat (map (\<lambda>(k, d). case Map_get cm k of None \<Rightarrow> []
        | Some c \<Rightarrow> if val c \<noteq> val d then [\<lparr>ukey = k, oldValue = val c, newValue = val d\<rparr>] else []) es))
      = map fst (filter (\<lambda>(k, d). case Map_get cm k of None \<Rightarrow> False | Some c \<Rightarrow> val c \<noteq> val d) es)"
    for cm and es :: "(string \<times> EnvironmentVariable) list"
    by (induction es) (auto split: option.splits)
  then show ?thesis
    by (simp add: compareVariables_def Let_def add_update_loop_snd)
qed

lemma toUpdate_distinct: "distinct (map ukey (toUpdate (compareVariables current desired)))"
  unfolding toUpdate_keys by (rule distinct_map_filter) (rule new_Map_distinct)

text \<open>
  Claim C1. For two snapshots whose keys are unique, and for every key \<open>k\<close>: \<open>k\<close> is
  among the keys of \<^verbatim>\<open>toAdd\<close> exactly when it is a key of \<open>desired\<close> and not of
  \<open>current\<close>; among the keys of \<^verbatim>\<open>toUpdate\<close> exactly when both snapshots hold it with
  unequal values; among the keys of \<^verbatim>\<open>toDelete\<close> exactly when it is a key of \<open>current\<close>
  and not of \<open>desired\<close>; and, if it occurs in either snapshot, in none of the three lists
  exactly when both snapshots hold it with equal values. No key is in two of the lists,
  and no list holds a key twice.
\<close>

theorem compareVariables_partition:
  assumes "distinct (map key current)" and "distinct (map key desired)"
  shows "(k \<in> key ` set (toAdd (compareVariables current desired)) \<longleftrightarrow>
            k \<in> key ` set desired \<and> k \<notin> key ` set current)
       \<and> (k \<in> ukey ` set (toUpdate (compareVariables current desired)) \<longleftrightarrow>
            (\<exists>c \<in> set current. \<exists>e \<in> set desired. key c = k \<and> key e = k \<and> val c \<noteq> val e))
       \<and> (k \<in> key ` set (toDelete (compareVariables current desired)) \<longleftrightarrow>
            k \<in> key ` set current \<and> k \<notin> key ` set desired)
       \<and> (k \<in> key ` set current \<union> key ` set desired \<longrightarrow>
            (k \<notin> key ` set (toAdd (compareVariables current desired))
             \<and> k \<notin> ukey ` set (toUpdate (compareVariables current desired))
             \<and> k \<notin> key ` set (toDelete (compareVariables current desired)) \<longleftrightarrow>
            (\<exists>c \<in> set current. \<exists>e \<in> set desired. key c = k \<and> key e = k \<and> val c = val e)))
       \<and> \<not> (k \<in> key ` set (toAdd (compareVariables current desired))
              \<and> k \<in> ukey ` set (toUpdate (compareVariables current desired)))
       \<and> \<not> (k \<in> key ` set (toAdd (compareVariables current desired))
              \<and> k \<in> key ` set (toDelete (compareVariables current desired)))
       \<and> \<not> (k \<in> ukey ` set (toUpdate (compareVariables current desired))
              \<and> k \<in> key ` set (toDelete (compareVariables current desired)))
       \<and> distinct (map key (toAdd (compareVariables current desired)))
       \<and> distinct (map ukey (toUpdate (compareVariables current desired)))
       \<and> distinct (map key (toDelete (compareVariables current desired)))"
proof -
  let ?d = "compareVariables current desired"
  have uniq: "c = c'" if "c \<in> set current" "c' \<in> set current" "key c = key c'" for c c'
    using that assms(1) by (auto simp: distinct_map inj_on_def)
  have uniq': "e = e'" if "e \<in> set desired" "e' \<in> set desired" "key e = key e'" for e e'
    using that assms(2) by (auto simp: distinct_map inj_on_def)
  have A: "k \<in> key ` set (toAdd ?d) \<longleftrightarrow> k \<in> key ` set desired \<and> k \<notin> key ` set current"
    by (auto simp: toAdd_unique [OF assms])
  have U: "k \<in> ukey ` set (toUpdate ?d) \<longleftrightarrow>
      (\<exists>c \<in> set current. \<exists>e \<in> set desired. key c = k \<and> key e = k \<and> val c \<noteq> val e)"
    unfolding toUpdate_unique_set [OF assms] by (force simp: image_iff)
  have D: "k \<in> key ` set (toDelete ?d) \<longleftrightarrow> k \<in> key ` set current \<and> k \<notin> key ` set desired"
    by (auto simp: toDelete_unique [OF assms])
  have N: "k \<in> key ` set current \<union> key ` set desired \<longrightarrow>
      (k \<notin> key ` set (toAdd ?d) \<and> k \<notin> ukey ` set (toUpdate ?d) \<and> k \<notin> key ` set (toDelete ?d) \<longleftrightarrow>
      (\<exists>c \<in> set current. \<exists>e \<in> set desired. key c = k \<and> key e = k \<and> val c = val e))"
    unfolding A U D using uniq uniq' by (auto simp: image_iff) metis+
  have dA: "distinct (map key (toAdd ?d))"
    unfolding toAdd_unique [OF assms] by (rule distinct_map_filter) (rule assms)
  have dD: "distinct (map key (toDelete ?d))"
    unfolding toDelete_unique [OF assms] by (rule distinct_map_filter) (rule assms)
  have AU: "\<not> (k \<in> key ` set (toAdd ?d) \<and> k \<in> ukey ` set (toUpdate ?d))"
    unfolding A U by (auto simp: image_iff)
  have AD: "\<not> (k \<in> key ` set (toAdd ?d) \<and> k \<in> key ` set (toDelete ?d))"
    unfolding A D by blast
  have UD: "\<not> (k \<in> ukey ` set (toUpdate ?d) \<and> k \<in> key ` set (toDelete ?d))"
    unfolding U D by (auto simp: image_iff) metis
  from A U D N AU AD UD dA dD toUpdate_distinct [of current desired]
  show ?thesis by blast
qed

theorem compareVariables_partition_witness:
  "distinct (map key example_current) \<and> distinct (map key example_parsed)
   \<and> ''B'' \<in> ukey ` set (toUpdate (compareVariables example_current example_parsed))
   \<and> ''B'' \<notin> key ` set (toAdd (compareVariables example_current example_parsed))
   \<and> ''B'' \<notin> key ` set (toDelete (compareVariables example_current example_parsed))"
  using compareVariables_partition [of example_current example_parsed "''B''"]
  by (simp add: example_current_def example_parsed_def)

section \<open>The config parser on the example of the specification\<close>

text \<open>
  Claim C9. With the decoder as the specification describes it, the text of the two lines
  \<^verbatim>\<open>A=1\<close> and \<^verbatim>\<open>A=2\<close> parses to exactly one record, with key \<^verbatim>\<open>A\<close>, value \<^verbatim>\<open>2\<close> and
  identifier \<^verbatim>\<open>1\<close>.
\<close>

theorem parseEnvToVariables_last_wins:
  "parseEnvToVariables dotenv_parse_spec (''A=1'' @ [newline] @ ''A=2'')
     = Inr [\<lparr>ident = ''1'', key = ''A'', val = ''2''\<rparr>]"
  by (simp add: parseEnvToVariables_def dotenv_parse_spec_def newline_def decode_line_def
      trim_def is_space_def unquote_def Object_entries_def is_array_index_def is_digit_def
      String_nat.simps digit_char_def)

section \<open>Facts about the orchestrator\<close>

lemma apply_calls_append: "apply_calls (a @ b) = apply_calls a @ apply_calls b"
  by (induction a rule: apply_calls.induct) auto

lemma restart_calls_append: "restart_calls (a @ b) = restart_calls a + restart_calls b"
  by (induction a rule: restart_calls.induct) auto

lemma notification_calls_append:
  "notification_calls (a @ b) = notification_calls a @ notification_calls b"
  by (induction a rule: notification_calls.induct) auto

lemma mutations_append: "mutations (a @ b) = mutations a @ mutations b"
  by (induction a rule: mutations.induct) auto

lemma calls_Console_log:
  "apply_calls (map Console_log ls) = []" "restart_calls (map Console_log ls) = 0"
  "notification_calls (map Console_log ls) = []" "mutations (map Console_log ls) = []"
  by (induction ls) auto

lemmas calls_append = apply_calls_append restart_calls_append notification_calls_append
  mutations_append

lemma getZeaburVariables_calls:
  "apply_calls (fst (getZeaburVariables w)) = []"
  "restart_calls (fst (getZeaburVariables w)) = 0"
  "notification_calls (fst (getZeaburVariables w)) = []"
  "mutations (fst (getZeaburVariables w)) = []"
  by (auto simp: getZeaburVariables_def await_def emit_def request_def resolve_def reject_def
      split: sum.splits prod.splits gql_data.splits)

lemma updateZeaburVariables_trace:
  "\<exists>t. fst (updateZeaburVariables w vs) = Call_updateZeaburVariables vs # t
       \<and> apply_calls t = [] \<and> restart_calls t = 0 \<and> notification_calls t = []"
  by (auto simp: updateZeaburVariables_def Let_def await_def emit_def request_def resolve_def
      split: sum.splits prod.splits)

lemma restartZeaburService_trace:
  "\<exists>t. fst (restartZeaburService w) = Call_restartZeaburService # t
       \<and> apply_calls t = [] \<and> restart_calls t = 0 \<and> notification_calls t = []"
  by (auto simp: restartZeaburService_def await_def emit_def request_def resolve_def
      split: sum.splits prod.splits)

lemma updateZeaburVariables_request:
  assumes "createZeaburClient (Bun_env w) = Inr cfg"
  shows "fst (updateZeaburVariables w vs) =
           [Call_updateZeaburVariables vs,
            Client_request (UpdateVariables (serviceId cfg) (envId cfg)
              (new_Map (map (\<lambda>variable. (key variable, val variable)) vs)))]"
    and "fst ` set (new_Map (map (\<lambda>variable. (key variable, val variable)) vs)) = key ` set vs"
  using assms
  by (auto simp: updateZeaburVariables_def Let_def await_def emit_def request_def resolve_def
      new_Map_keys image_comp comp_def split: sum.splits prod.splits)

lemma updateZeaburVariables_calls:
  "apply_calls (fst (updateZeaburVariables w vs)) = [vs]"
  "restart_calls (fst (updateZeaburVariables w vs)) = 0"
  "notification_calls (fst (updateZeaburVariables w vs)) = []"
  using updateZeaburVariables_trace [of w vs] by auto

lemma restartZeaburService_calls:
  "apply_calls (fst (restartZeaburService w)) = []"
  "restart_calls (fst (restartZeaburService w)) = 1"
  "notification_calls (fst (restartZeaburService w)) = []"
  using restartZeaburService_trace [of w] by auto

lemma sync_prefix_calls:
  "apply_calls (sync_prefix w d) = []" "restart_calls (sync_prefix w d) = 0"
  "notification_calls (sync_prefix w d) = []" "mutations (sync_prefix w d) = []"
  by (simp_all add: sync_prefix_def calls_append getZeaburVariables_calls calls_Console_log)

lemma runSync_unchanged:
  assumes "snd (getZeaburVariables w) = Inr existing"
    and "vault_hub w = Inr vault"
    and "parseEnvToVariables (dotenv_parse w) (vault_value vault) = Inr parsed"
    and "length (toAdd (compareVariables existing parsed))
         + length (toUpdate (compareVariables existing parsed))
         + length (toDelete (compareVariables existing parsed)) = 0"
  shows "runSync w =
           (sync_prefix w (compareVariables existing parsed) @ [Console_log ''No changes needed''],
            Inr None)"
proof -
  obtain t where g: "getZeaburVariables w = (t, Inr existing)"
    using assms(1) by (cases "getZeaburVariables w") auto
  show ?thesis
    using assms(2-4)
    by (simp add: runSync_def g await_def getVaultHubVault_def Let_def console_log_all_def
        emit_def resolve_def sync_prefix_def)
qed

lemma runSync_changed:
  assumes "snd (getZeaburVariables w) = Inr existing"
    and "vault_hub w = Inr vault"
    and "parseEnvToVariables (dotenv_parse w) (vault_value vault) = Inr parsed"
    and "length (toAdd (compareVariables existing parsed))
         + length (toUpdate (compareVariables existing parsed))
         + length (toDelete (compareVariables existing parsed)) \<noteq> 0"
  shows "runSync w =
     (case snd (updateZeaburVariables w parsed) of
        Inl e \<Rightarrow> (sync_prefix w (compareVariables existing parsed)
                  @ fst (updateZeaburVariables w parsed), Inl e)
      | Inr ur \<Rightarrow>
          (sync_prefix w (compareVariables existing parsed)
           @ fst (updateZeaburVariables w parsed) @ fst (restartZeaburService w),
           case snd (restartZeaburService w) of
             Inl e \<Rightarrow> Inl e
           | Inr rr \<Rightarrow> Inr (Some \<lparr>diff = compareVariables existing parsed,
                                   updateResult = ur, restartResult = rr\<rparr>)))"
proof -
  obtain t where g: "getZeaburVariables w = (t, Inr existing)"
    using assms(1) by (cases "getZeaburVariables w") auto
  obtain tu ru where u: "updateZeaburVariables w parsed = (tu, ru)"
    by (cases "updateZeaburVariables w parsed")
  obtain tr rr where r: "restartZeaburService w = (tr, rr)"
    by (cases "restartZeaburService w")
  show ?thesis
    using assms(2-4)
    by (simp add: runSync_def g u r await_def getVaultHubVault_def Let_def console_log_all_def
        emit_def resolve_def sync_prefix_def split: sum.splits)
qed

subsection \<open>The example runs\<close>

lemmas io_defs = await_def emit_def resolve_def reject_def request_def try_catch_def

lemmas world_defs = example_world_def unchanged_world_def apply_fails_world_def
  vault_down_world_def example_env_def example_vault_def example_parse_def
  example_parsed_def example_current_def synced_current_def

lemmas parse_defs = parseEnvToVariables_def Object_entries_def is_array_index_def is_digit_def
  String_nat.simps digit_char_def

lemmas compare_defs = compareVariables_def new_Map_def Map_get_def Map_has_def

lemma example_get [simp]:
  "getZeaburVariables example_world =
     ([Call_getZeaburVariables, Client_request (GetServiceVariables ''svc'' ''env'')],
      Inr example_current)"
  "getZeaburVariables apply_fails_world =
     ([Call_getZeaburVariables, Client_request (GetServiceVariables ''svc'' ''env'')],
      Inr example_current)"
  "getZeaburVariables unchanged_world =
     ([Call_getZeaburVariables, Client_request (GetServiceVariables ''svc'' ''env'')],
      Inr synced_current)"
  "getZeaburVariables vault_down_world =
     ([Call_getZeaburVariables, Client_request (GetServiceVariables ''svc'' ''env'')],
      Inr example_current)"
  by (simp_all add: getZeaburVariables_def createZeaburClient_def io_defs world_defs)

lemma example_parse_result [simp]:
  "parseEnvToVariables example_parse (vault_value example_vault) = Inr example_parsed"
  by (simp add: parse_defs world_defs)

lemma example_diff [simp]:
  "compareVariables example_current example_parsed =
     \<lparr>toAdd = [\<lparr>ident = ''2'', key = ''C'', val = ''4''\<rparr>],
      toUpdate = [\<lparr>ukey = ''B'', oldValue = ''2'', newValue = ''3''\<rparr>],
      toDelete = [\<lparr>ident = ''x1'', key = ''A'', val = ''1''\<rparr>]\<rparr>"
  "compareVariables synced_current example_parsed =
     \<lparr>toAdd = [], toUpdate = [], toDelete = []\<rparr>"
  by (simp_all add: compare_defs world_defs)

lemma example_update [simp]:
  "updateZeaburVariables example_world example_parsed =
     ([Call_updateZeaburVariables example_parsed,
       Client_request (UpdateVariables ''svc'' ''env'' [(''B'', ''3''), (''C'', ''4'')])],
      Inr (Result ''true''))"
  "updateZeaburVariables apply_fails_world example_parsed =
     ([Call_updateZeaburVariables example_parsed,
       Client_request (UpdateVariables ''svc'' ''env'' [(''B'', ''3''), (''C'', ''4'')])],
      Inl (Error ''update refused''))"
  by (simp_all add: updateZeaburVariables_def createZeaburClient_def io_defs new_Map_def
      example_world_def apply_fails_world_def example_env_def example_parsed_def)

lemma example_restart [simp]:
  "restartZeaburService example_world =
     ([Call_restartZeaburService, Client_request (RestartService ''svc'' ''env'')],
      Inr (Result ''true''))"
  by (simp add: restartZeaburService_def createZeaburClient_def io_defs
      example_world_def example_env_def)

lemma example_fields [simp]:
  "vault_hub example_world = Inr example_vault" "dotenv_parse example_world = example_parse"
  "vault_hub unchanged_world = Inr example_vault" "dotenv_parse unchanged_world = example_parse"
  "vault_hub apply_fails_world = Inr example_vault"
  "dotenv_parse apply_fails_world = example_parse"
  "vault_hub vault_down_world = Inl (Error ''vault unreachable'')"
  by (simp_all add: example_world_def unchanged_world_def apply_fails_world_def
      vault_down_world_def)

text \<open>
  Claim C2. When both fetches and the parse succeed and the three lists of the computed
  diff are empty, \<^verbatim>\<open>runSync\<close> is fulfilled with \<^verbatim>\<open>undefined\<close>, and its trace holds
  no call of \<^verbatim>\<open>updateZeaburVariables\<close>, no call of \<^verbatim>\<open>restartZeaburService\<close> and no mutation
  sent to the endpoint.
\<close>

theorem runSync_no_changes:
  assumes "snd (getZeaburVariables w) = Inr existing"
    and "vault_hub w = Inr vault"
    and "parseEnvToVariables (dotenv_parse w) (vault_value vault) = Inr parsed"
    and "toAdd (compareVariables existing parsed) = []"
    and "toUpdate (compareVariables existing parsed) = []"
    and "toDelete (compareVariables existing parsed) = []"
  shows "snd (runSync w) = Inr None
       \<and> apply_calls (fst (runSync w)) = []
       \<and> restart_calls (fst (runSync w)) = 0
       \<and> mutations (fst (runSync w)) = []"
proof -
  have "runSync w =
          (sync_prefix w (compareVariables existing parsed) @ [Console_log ''No changes needed''],
           Inr None)"
    using assms by (intro runSync_unchanged) auto
  then show ?thesis
    by (simp add: calls_append sync_prefix_calls)
qed

theorem runSync_no_changes_witness:
  "snd (getZeaburVariables unchanged_world) = Inr synced_current
   \<and> vault_hub unchanged_world = Inr example_vault
   \<and> parseEnvToVariables (dotenv_parse unchanged_world) (vault_value example_vault)
       = Inr example_parsed
   \<and> compareVariables synced_current example_parsed
       = \<lparr>toAdd = [], toUpdate = [], toDelete = []\<rparr>
   \<and> snd (runSync unchanged_world) = Inr None
   \<and> apply_calls (fst (runSync unchanged_world)) = []
   \<and> restart_calls (fst (runSync unchanged_world)) = 0
   \<and> mutations (fst (runSync unchanged_world)) = []"
  using runSync_no_changes [of unchanged_world synced_current example_vault example_parsed]
  by simp

text \<open>
  Claim C3. When both fetches and the parse succeed and the computed diff is not empty,
  \<^verbatim>\<open>runSync\<close> calls \<^verbatim>\<open>updateZeaburVariables\<close> exactly once, with the whole parsed list. If
  that call is rejected, \<^verbatim>\<open>restartZeaburService\<close> is not called and \<^verbatim>\<open>runSync\<close> is rejected
  with the same error. If it is fulfilled, \<^verbatim>\<open>restartZeaburService\<close> is called exactly
  once, and its events, the first of which is the call itself, come after all the
  events of the update.
\<close>

theorem runSync_changes:
  assumes "snd (getZeaburVariables w) = Inr existing"
    and "vault_hub w = Inr vault"
    and "parseEnvToVariables (dotenv_parse w) (vault_value vault) = Inr parsed"
    and "toAdd (compareVariables existing parsed) \<noteq> []
         \<or> toUpdate (compareVariables existing parsed) \<noteq> []
         \<or> toDelete (compareVariables existing parsed) \<noteq> []"
  shows "apply_calls (fst (runSync w)) = [parsed]
       \<and> (\<forall>e. snd (updateZeaburVariables w parsed) = Inl e \<longrightarrow>
              restart_calls (fst (runSync w)) = 0 \<and> snd (runSync w) = Inl e)
       \<and> (\<forall>r. snd (updateZeaburVariables w parsed) = Inr r \<longrightarrow>
              restart_calls (fst (runSync w)) = 1
              \<and> (\<exists>pre. fst (runSync w)
                          = pre @ fst (updateZeaburVariables w parsed)
                                @ fst (restartZeaburService w)
                        \<and> apply_calls pre = [] \<and> restart_calls pre = 0
                        \<and> restart_calls (fst (updateZeaburVariables w parsed)) = 0
                        \<and> hd (fst (restartZeaburService w)) = Call_restartZeaburService))"
proof -
  let ?d = "compareVariables existing parsed"
  have ne: "length (toAdd ?d) + length (toUpdate ?d) + length (toDelete ?d) \<noteq> 0"
    using assms(4) by auto
  note run = runSync_changed [OF assms(1-3) ne]
  have hd_r: "hd (fst (restartZeaburService w)) = Call_restartZeaburService"
    using restartZeaburService_trace [of w] by auto
  have a: "apply_calls (fst (runSync w)) = [parsed]"
    by (simp add: run calls_append sync_prefix_calls updateZeaburVariables_calls
        restartZeaburService_calls split: sum.splits)
  have f: "restart_calls (fst (runSync w)) = 0 \<and> snd (runSync w) = Inl e"
    if "snd (updateZeaburVariables w parsed) = Inl e" for e
    using that
    by (simp add: run calls_append sync_prefix_calls updateZeaburVariables_calls)
  have s: "restart_calls (fst (runSync w)) = 1
      \<and> (\<exists>pre. fst (runSync w)
                  = pre @ fst (updateZeaburVariables w parsed) @ fst (restartZeaburService w)
                \<and> apply_calls pre = [] \<and> restart_calls pre = 0
                \<and> restart_calls (fst (updateZeaburVariables w parsed)) = 0
                \<and> hd (fst (restartZeaburService w)) = Call_restartZeaburService)"
    if "snd (updateZeaburVariables w parsed) = Inr r" for r
  proof -
    have t: "fst (runSync w)
        = sync_prefix w ?d @ fst (updateZeaburVariables w parsed) @ fst (restartZeaburService w)"
      using that by (simp add: run)
    show ?thesis
      unfolding t
      by (intro conjI exI [of _ "sync_prefix w ?d"])
         (simp_all add: calls_append sync_prefix_calls updateZeaburVariables_calls
            restartZeaburService_calls hd_r)
  qed
  from a f s show ?thesis by blast
qed

theorem runSync_changes_witness:
  "snd (getZeaburVariables example_world) = Inr example_current
   \<and> toAdd (compareVariables example_current example_parsed) \<noteq> []
   \<and> apply_calls (fst (runSync example_world)) = [example_parsed]
   \<and> snd (updateZeaburVariables example_world example_parsed) = Inr (Result ''true'')
   \<and> restart_calls (fst (runSync example_world)) = 1
   \<and> snd (updateZeaburVariables apply_fails_world example_parsed)
       = Inl (Error ''update refused'')
   \<and> apply_calls (fst (runSync apply_fails_world)) = [example_parsed]
   \<and> restart_calls (fst (runSync apply_fails_world)) = 0
   \<and> snd (runSync apply_fails_world) = Inl (Error ''update refused'')"
  using runSync_changes [of example_world example_current example_vault example_parsed]
    runSync_changes [of apply_fails_world example_current example_vault example_parsed]
  by simp

lemma await_no_notification:
  assumes "notification_calls (fst m) = []"
    and "\<And>x. notification_calls (fst (f x)) = []"
  shows "notification_calls (fst (await m f)) = []"
proof (cases m)
  case (Pair t r)
  show ?thesis
  proof (cases r)
    case (Inl e)
    with Pair assms(1) show ?thesis by (simp add: await_def)
  next
    case (Inr x)
    obtain t' r' where fx: "f x = (t', r')" by (cases "f x")
    from assms(2) [of x] fx have "notification_calls t' = []" by simp
    with Pair Inr fx assms(1) show ?thesis
      by (simp add: await_def notification_calls_append)
  qed
qed

lemma runSync_no_notification: "notification_calls (fst (runSync w)) = []"
  unfolding runSync_def Let_def
  by (intro await_no_notification)
     (simp_all add: getZeaburVariables_calls getVaultHubVault_def console_log_all_def
        calls_Console_log emit_def resolve_def updateZeaburVariables_calls
        restartZeaburService_calls await_no_notification)

text \<open>
  Claim C4 says that a cycle with changes ends with a notification. In the example run
  the diff is not empty, the update and the restart are called and succeed, the run is
  fulfilled with the three results, and its trace holds no call of \<^verbatim>\<open>sendNotification\<close>
  and no attempt of a provider.
\<close>

theorem runSync_without_notification_counterexample:
  "toAdd (compareVariables example_current example_parsed) \<noteq> []
   \<and> fst (runSync example_world)
       = sync_prefix example_world (compareVariables example_current example_parsed)
         @ [Call_updateZeaburVariables example_parsed,
            Client_request (UpdateVariables ''svc'' ''env'' [(''B'', ''3''), (''C'', ''4'')]),
            Call_restartZeaburService,
            Client_request (RestartService ''svc'' ''env'')]
   \<and> snd (runSync example_world)
       = Inr (Some \<lparr>diff = compareVariables example_current example_parsed,
                    updateResult = Result ''true'', restartResult = Result ''true''\<rparr>)
   \<and> notification_calls (fst (runSync example_world)) = []"
proof -
  have ne: "length (toAdd (compareVariables example_current example_parsed))
      + length (toUpdate (compareVariables example_current example_parsed))
      + length (toDelete (compareVariables example_current example_parsed)) \<noteq> 0"
    by simp
  have g: "snd (getZeaburVariables example_world) = Inr example_current" by simp
  have run: "runSync example_world =
      (sync_prefix example_world (compareVariables example_current example_parsed)
         @ [Call_updateZeaburVariables example_parsed,
            Client_request (UpdateVariables ''svc'' ''env'' [(''B'', ''3''), (''C'', ''4'')]),
            Call_restartZeaburService,
            Client_request (RestartService ''svc'' ''env'')],
       Inr (Some \<lparr>diff = compareVariables example_current example_parsed,
                   updateResult = Result ''true'', restartResult = Result ''true''\<rparr>))"
    using runSync_changed [OF g _ _ ne, of example_vault] by simp
  show ?thesis
    unfolding run by (simp add: notification_calls_append sync_prefix_calls)
qed

text \<open>
  Claim C4, amended. No run of \<^verbatim>\<open>runSync\<close> calls \<^verbatim>\<open>sendNotification\<close> or a provider. In a
  cycle where changes exist and the update and the restart succeed, the trace is the
  events up to the report, then those of the update, which begin with its call, then
  those of the restart, which begin with its call; the cycle ends there, fulfilled with
  the diff and the two results.
\<close>

theorem runSync_apply_restart_only:
  "notification_calls (fst (runSync w)) = []
   \<and> (snd (getZeaburVariables w) = Inr existing
      \<and> vault_hub w = Inr vault
      \<and> parseEnvToVariables (dotenv_parse w) (vault_value vault) = Inr parsed
      \<and> length (toAdd (compareVariables existing parsed))
         + length (toUpdate (compareVariables existing parsed))
         + length (toDelete (compareVariables existing parsed)) > 0
      \<and> snd (updateZeaburVariables w parsed) = Inr ur
      \<and> snd (restartZeaburService w) = Inr rr
      \<longrightarrow> snd (runSync w) = Inr (Some \<lparr>diff = compareVariables existing parsed,
                                        updateResult = ur, restartResult = rr\<rparr>)
          \<and> fst (runSync w) = sync_prefix w (compareVariables existing parsed)
                              @ fst (updateZeaburVariables w parsed)
                              @ fst (restartZeaburService w)
          \<and> hd (fst (updateZeaburVariables w parsed)) = Call_updateZeaburVariables parsed
          \<and> hd (fst (restartZeaburService w)) = Call_restartZeaburService)"
proof (intro conjI impI)
  show "notification_calls (fst (runSync w)) = []" by (rule runSync_no_notification)
next
  assume h: "snd (getZeaburVariables w) = Inr existing
      \<and> vault_hub w = Inr vault
      \<and> parseEnvToVariables (dotenv_parse w) (vault_value vault) = Inr parsed
      \<and> length (toAdd (compareVariables existing parsed))
         + length (toUpdate (compareVariables existing parsed))
         + length (toDelete (compareVariables existing parsed)) > 0
      \<and> snd (updateZeaburVariables w parsed) = Inr ur
      \<and> snd (restartZeaburService w) = Inr rr"
  then have run: "runSync w =
      (sync_prefix w (compareVariables existing parsed)
         @ fst (updateZeaburVariables w parsed) @ fst (restartZeaburService w),
       Inr (Some \<lparr>diff = compareVariables existing parsed,
                   updateResult = ur, restartResult = rr\<rparr>))"
    using runSync_changed [of w existing vault parsed] by simp
  show "snd (runSync w) = Inr (Some \<lparr>diff = compareVariables existing parsed,
                                        updateResult = ur, restartResult = rr\<rparr>)"
    by (simp add: run)
  show "fst (runSync w) = sync_prefix w (compareVariables existing parsed)
                              @ fst (updateZeaburVariables w parsed)
                              @ fst (restartZeaburService w)"
    by (simp add: run)
  show "hd (fst (updateZeaburVariables w parsed)) = Call_updateZeaburVariables parsed"
    using updateZeaburVariables_trace [of w parsed] by auto
  show "hd (fst (restartZeaburService w)) = Call_restartZeaburService"
    using restartZeaburService_trace [of w] by auto
qed

theorem runSync_apply_restart_only_witness:
  "snd (getZeaburVariables example_world) = Inr example_current
   \<and> vault_hub example_world = Inr example_vault
   \<and> parseEnvToVariables (dotenv_parse example_world) (vault_value example_vault)
       = Inr example_parsed
   \<and> length (toAdd (compareVariables example_current example_parsed))
      + length (toUpdate (compareVariables example_current example_parsed))
      + length (toDelete (compareVariables example_current example_parsed)) > 0
   \<and> snd (updateZeaburVariables example_world example_parsed) = Inr (Result ''true'')
   \<and> snd (restartZeaburService example_world) = Inr (Result ''true'')
   \<and> notification_calls (fst (runSync example_world)) = []
   \<and> snd (runSync example_world)
       = Inr (Some \<lparr>diff = compareVariables example_current example_parsed,
                    updateResult = Result ''true'', restartResult = Result ''true''\<rparr>)"
  using runSync_apply_restart_only [of example_world example_current example_vault
      example_parsed "Result ''true''" "Result ''true''"]
  by (simp add: notification_calls_append sync_prefix_calls)

text \<open>
  Claim C5. \<^verbatim>\<open>runSyncWithErrorHandling\<close> is always fulfilled, and so is the callback
  registered with the scheduler, whatever \<^verbatim>\<open>runSync\<close> does. When \<^verbatim>\<open>runSync\<close> is rejected
  with an error, the last event of the wrapper is the \<^verbatim>\<open>console.error\<close> line that carries
  the timestamp and that error; when it is fulfilled, the last event is the line that
  reports success.
\<close>

theorem runSyncWithErrorHandling_isolates:
  "snd (runSyncWithErrorHandling w now) = Inr ()
   \<and> snd (scheduler_callback w now) = Inr ()
   \<and> (\<forall>e. snd (runSync w) = Inl e \<longrightarrow>
          fst (runSyncWithErrorHandling w now)
            = Console_log (newline # ''['' @ now @ ''] Starting sync...'')
              # fst (runSync w) @ [Console_error (''['' @ now @ ''] Sync failed:'') e])
   \<and> (\<forall>r. snd (runSync w) = Inr r \<longrightarrow>
          fst (runSyncWithErrorHandling w now)
            = Console_log (newline # ''['' @ now @ ''] Starting sync...'')
              # fst (runSync w) @ [Console_log (''['' @ now @ ''] Sync completed successfully'')])"
proof -
  obtain t r where run: "runSync w = (t, r)" by (cases "runSync w")
  have 1: "snd (runSyncWithErrorHandling w now) = Inr ()"
    by (cases r) (simp_all add: runSyncWithErrorHandling_def run io_defs)
  have 2: "snd (scheduler_callback w now) = Inr ()"
    using 1 by (cases "runSyncWithErrorHandling w now")
      (simp add: scheduler_callback_def await_def resolve_def)
  show ?thesis
    using 1 2 by (cases r) (simp_all add: runSyncWithErrorHandling_def run io_defs)
qed

lemma vault_down_run:
  "runSync vault_down_world =
     ([Call_getZeaburVariables, Client_request (GetServiceVariables ''svc'' ''env''),
       Call_getVaultHubVault], Inl (Error ''vault unreachable''))"
  by (simp add: runSync_def await_def getVaultHubVault_def)

theorem runSyncWithErrorHandling_isolates_witness:
  "snd (runSync vault_down_world) = Inl (Error ''vault unreachable'')
   \<and> runSyncWithErrorHandling vault_down_world ''2026-01-01T00:00:00.000Z''
      = ([Console_log (newline # ''[2026-01-01T00:00:00.000Z] Starting sync...''),
          Call_getZeaburVariables, Client_request (GetServiceVariables ''svc'' ''env''),
          Call_getVaultHubVault,
          Console_error ''[2026-01-01T00:00:00.000Z] Sync failed:''
            (Error ''vault unreachable'')],
         Inr ())"
  using runSyncWithErrorHandling_isolates [of vault_down_world "''2026-01-01T00:00:00.000Z''"]
  by (cases "runSyncWithErrorHandling vault_down_world ''2026-01-01T00:00:00.000Z''")
     (simp add: vault_down_run)

section \<open>Facts about the notifier\<close>

lemma allSettled_send_results:
  "snd (allSettled_send i ps payload) = map (\<lambda>p. snd (p payload)) ps"
  by (induction i ps payload rule: allSettled_send.induct) (auto split: prod.splits)

lemma allSettled_send_attempt:
  "k < length ps \<Longrightarrow>
   Provider_send (i + k) payload \<in> set (fst (allSettled_send i ps payload))
   \<and> set (fst ((ps ! k) payload)) \<subseteq> set (fst (allSettled_send i ps payload))"
proof (induction i ps payload arbitrary: k rule: allSettled_send.induct)
  case (1 i payload)
  then show ?case by simp
next
  case (2 i p ps payload)
  obtain t r where p: "p payload = (t, r)" by (cases "p payload")
  obtain ts rs where rest: "allSettled_send (Suc i) ps payload = (ts, rs)"
    by (cases "allSettled_send (Suc i) ps payload")
  show ?case
  proof (cases k)
    case 0
    then show ?thesis by (auto simp: p rest)
  next
    case (Suc j)
    with "2.prems" have "j < length ps" by simp
    from "2.IH" [OF p [symmetric] this] rest Suc show ?thesis
      by (auto simp: p)
  qed
qed

lemma log_failures_logged:
  "k < length rs \<Longrightarrow> rs ! k = Inl reason \<Longrightarrow>
   Console_error (''Notification provider '' @ String_nat (i + k) @ '' failed:'') reason
     \<in> set (log_failures i rs)"
proof (induction i rs arbitrary: k rule: log_failures.induct)
  case (1 i)
  then show ?case by simp
next
  case (2 i reason' rs)
  then show ?case by (cases k) auto
next
  case (3 i u rs)
  then show ?case by (cases k) auto
qed

lemma dispatch_fulfilled: "snd (dispatch ps payload) = Inr ()"
  by (simp add: dispatch_def emit_def split: prod.splits)

lemma dispatch_trace:
  "ps \<noteq> [] \<Longrightarrow>
   fst (dispatch ps payload) =
     fst (allSettled_send 0 ps payload) @ log_failures 0 (map (\<lambda>p. snd (p payload)) ps)"
  using allSettled_send_results [of 0 ps payload]
  by (cases "allSettled_send 0 ps payload") (simp add: dispatch_def)

text \<open>
  Claim C7. \<^verbatim>\<open>sendNotification\<close> is always fulfilled, and its trace is the call, the
  events of building the providers and those of the dispatch to them. For every list of
  providers the dispatch is fulfilled; for each provider of the list the trace holds the
  attempt and the events of that attempt, whatever the other providers do, and, when the
  provider rejects, the \<^verbatim>\<open>console.error\<close> line with its index and the reason.
\<close>

theorem sendNotification_fan_out:
  "snd (sendNotification w payload) = Inr ()
   \<and> fst (sendNotification w payload)
       = Call_sendNotification payload # fst (configured_providers w)
         @ fst (dispatch (snd (configured_providers w)) payload)
   \<and> snd (dispatch ps payload) = Inr ()
   \<and> (i < length ps \<longrightarrow>
        Provider_send i payload \<in> set (fst (dispatch ps payload))
        \<and> set (fst ((ps ! i) payload)) \<subseteq> set (fst (dispatch ps payload))
        \<and> (\<forall>reason. snd ((ps ! i) payload) = Inl reason \<longrightarrow>
              Console_error (''Notification provider '' @ String_nat i @ '' failed:'') reason
                \<in> set (fst (dispatch ps payload))))"
proof -
  obtain t providers where c: "configured_providers w = (t, providers)"
    by (cases "configured_providers w")
  obtain t' r where d: "dispatch providers payload = (t', r)"
    by (cases "dispatch providers payload")
  have r: "r = Inr ()" using dispatch_fulfilled [of providers payload] d by simp
  have 1: "snd (sendNotification w payload) = Inr ()"
    by (simp add: sendNotification_def c d r)
  have 2: "fst (sendNotification w payload)
       = Call_sendNotification payload # fst (configured_providers w)
         @ fst (dispatch (snd (configured_providers w)) payload)"
    by (simp add: sendNotification_def c d)
  have 3: "Provider_send i payload \<in> set (fst (dispatch ps payload))
        \<and> set (fst ((ps ! i) payload)) \<subseteq> set (fst (dispatch ps payload))
        \<and> (\<forall>reason. snd ((ps ! i) payload) = Inl reason \<longrightarrow>
              Console_error (''Notification provider '' @ String_nat i @ '' failed:'') reason
                \<in> set (fst (dispatch ps payload)))" if i: "i < length ps"
  proof -
    from i have ne: "ps \<noteq> []" by auto
    have a: "Provider_send i payload \<in> set (fst (allSettled_send 0 ps payload))
        \<and> set (fst ((ps ! i) payload)) \<subseteq> set (fst (allSettled_send 0 ps payload))"
      using allSettled_send_attempt [OF i, of 0 payload] by simp
    have l: "Console_error (''Notification provider '' @ String_nat i @ '' failed:'') reason
        \<in> set (log_failures 0 (map (\<lambda>p. snd (p payload)) ps))"
      if "snd ((ps ! i) payload) = Inl reason" for reason
      using log_failures_logged [of i "map (\<lambda>p. snd (p payload)) ps" reason 0] i that
      by simp
    from a l show ?thesis
      unfolding dispatch_trace [OF ne] by auto
  qed
  from 1 2 3 dispatch_fulfilled [of ps payload] show ?thesis by blast
qed

lemma example_sends:
  "BarkNotifier_send fetch_unused example_bark example_payload =
     ([Fetch ''https://api.day.app/push''
         [(''device_key'', ''device''), (''title'', ''Zeabur Env Sync Success''),
          (''body'', ''Total: 3 changes applied''), (''group'', ''sync'')],
       Console_error ''Failed to send Bark notification:'' (Error ''unreachable'')],
      Inl (Error ''unreachable''))"
  "BarkNotifier_send fetch_ok example_bark example_payload =
     ([Fetch ''https://api.day.app/push''
         [(''device_key'', ''device''), (''title'', ''Zeabur Env Sync Success''),
          (''body'', ''Total: 3 changes applied''), (''group'', ''sync'')],
       Console_log ''Bark notification sent successfully: {}''],
      Inr ())"
  by (simp_all add: BarkNotifier_send_def example_bark_def example_payload_def
      optional_field_def io_defs)

theorem sendNotification_fan_out_witness:
  "snd ((example_providers ! 0) example_payload) = Inl (Error ''unreachable'')
   \<and> snd ((example_providers ! 1) example_payload) = Inr ()
   \<and> snd (dispatch example_providers example_payload) = Inr ()
   \<and> Provider_send 0 example_payload \<in> set (fst (dispatch example_providers example_payload))
   \<and> Provider_send 1 example_payload \<in> set (fst (dispatch example_providers example_payload))
   \<and> Console_error ''Notification provider 0 failed:'' (Error ''unreachable'')
       \<in> set (fst (dispatch example_providers example_payload))"
  using sendNotification_fan_out [of example_world example_payload example_providers 0]
    sendNotification_fan_out [of example_world example_payload example_providers 1]
  by (simp add: example_providers_def example_sends String_nat.simps digit_char_def)

end
